theory Spec2Isabelle
  imports Main "HOL-Library.Word"
begin

section \<open>C values and the machine state\<close>

text \<open>
  The shim \<^verbatim>\<open>scripts/glibc-shim/glibc_shim.c\<close> is built for 64-bit Linux, where
  \<^verbatim>\<open>int\<close> has 32 bits and \<^verbatim>\<open>long\<close>, \<^verbatim>\<open>unsigned long\<close>, \<^verbatim>\<open>long long\<close>,
  \<^verbatim>\<open>unsigned long long\<close> and every pointer have 64 bits. A signed value is read from
  its word with \<open>sint\<close>, an unsigned one with \<open>unat\<close>.
\<close>

type_synonym c_int = "32 word"
type_synonym c_long = "64 word"
type_synonym ptr = "64 word"

definition NULL :: ptr where
  "NULL = 0"

text \<open>
  The state a call can read or write: the calling thread's \<^verbatim>\<open>errno\<close>, the
  NUL-terminated character arrays in memory (\<open>strings s p\<close> is the text before the NUL
  of the array that starts at \<open>p\<close>, or \<open>None\<close> when \<open>p\<close> does not point to one), the
  memory cells that hold a \<^verbatim>\<open>char *\<close> (an end-pointer slot is one of them) and the
  cells that hold an \<^verbatim>\<open>int\<close> (the \<^verbatim>\<open>pidfd\<close> output slot is one of them).
\<close>

record cstate =
  errno :: c_int
  strings :: "ptr \<Rightarrow> string option"
  ptr_cells :: "ptr \<Rightarrow> ptr"
  int_cells :: "ptr \<Rightarrow> c_int"

text \<open>
  A call either returns a value and a final state, or does not return (\<open>None\<close>: it
  traps or runs forever).
\<close>

type_synonym 'a call = "cstate \<Rightarrow> ('a \<times> cstate) option"

section \<open>The host C library\<close>

text \<open>
  The shim includes \<^verbatim>\<open><stdlib.h>\<close> and \<^verbatim>\<open><errno.h>\<close> and uses five names of the
  host's C library, none of which is defined in the repository: the macro \<^verbatim>\<open>ENOSYS\<close>
  and the functions \<^verbatim>\<open>strtol\<close>, \<^verbatim>\<open>strtoul\<close>, \<^verbatim>\<open>strtoll\<close>, \<^verbatim>\<open>strtoull\<close>, each taking
  \<^verbatim>\<open>(const char *nptr, char **endptr, int base)\<close>. The shim's functions take the
  library as a parameter.
\<close>

type_synonym conversion = "ptr \<Rightarrow> ptr \<Rightarrow> c_int \<Rightarrow> c_long call"

record libc =
  ENOSYS :: c_int
  strtol :: conversion
  strtoul :: conversion
  strtoll :: conversion
  strtoull :: conversion

section \<open>The shim\<close>

text \<open>
  \<^verbatim>\<open>long __isoc23_strtol(const char *nptr, char **endptr, int base) {
    return strtol(nptr, endptr, base);
}\<close>
  and likewise the other three conversions. (An Isabelle name cannot start with an
  underscore, so the two leading underscores are dropped.)
\<close>

definition isoc23_strtol :: "libc \<Rightarrow> ptr \<Rightarrow> ptr \<Rightarrow> c_int \<Rightarrow> c_long call" where
  "isoc23_strtol L nptr endptr base s = strtol L nptr endptr base s"

definition isoc23_strtoul :: "libc \<Rightarrow> ptr \<Rightarrow> ptr \<Rightarrow> c_int \<Rightarrow> c_long call" where
  "isoc23_strtoul L nptr endptr base s = strtoul L nptr endptr base s"

definition isoc23_strtoll :: "libc \<Rightarrow> ptr \<Rightarrow> ptr \<Rightarrow> c_int \<Rightarrow> c_long call" where
  "isoc23_strtoll L nptr endptr base s = strtoll L nptr endptr base s"

definition isoc23_strtoull :: "libc \<Rightarrow> ptr \<Rightarrow> ptr \<Rightarrow> c_int \<Rightarrow> c_long call" where
  "isoc23_strtoull L nptr endptr base s = strtoull L nptr endptr base s"

text \<open>
  \<^verbatim>\<open>int pidfd_spawnp(int *pidfd, const char *file, const void *file_actions,
                 const void *attrp, char *const argv[], char *const envp[]) {
    errno = ENOSYS;
    return -1;
}\<close>
  No parameter is read and nothing is written through one.
\<close>

definition pidfd_spawnp ::
  "libc \<Rightarrow> ptr \<Rightarrow> ptr \<Rightarrow> ptr \<Rightarrow> ptr \<Rightarrow> ptr \<Rightarrow> ptr \<Rightarrow> c_int call" where
  "pidfd_spawnp L pidfd file file_actions attrp argv envp s =
     Some (- 1, s\<lparr>errno := ENOSYS L\<rparr>)"

text \<open>
  \<^verbatim>\<open>int pidfd_getpid(int pidfd) {
    errno = ENOSYS;
    return -1;
}\<close>
\<close>

definition pidfd_getpid :: "libc \<Rightarrow> c_int \<Rightarrow> c_int call" where
  "pidfd_getpid L pidfd s = Some (- 1, s\<lparr>errno := ENOSYS L\<rparr>)"

section \<open>A model of the host's conversions\<close>

text \<open>
  The conversions the shim forwards to are the host library's and are not under
  \<^verbatim>\<open>src/\<close>. The specification describes them by reference ("identical semantics to
  the pre-C23 conversion routines", "per standard conversion semantics") and by a few
  properties, quoted below where they are used; where it is silent the model follows
  the C standard's description of \<^verbatim>\<open>strtol\<close>. Only the theorems that say so are about
  this model; the others hold for every host library.
\<close>

text \<open>
  Modelled from the spec: the error code "not implemented" of \<^verbatim>\<open><errno.h>\<close>, which is
  not under \<^verbatim>\<open>src/\<close>. The number is that of Linux, the shim's platform.
\<close>

definition ENOSYS_linux :: c_int where
  "ENOSYS_linux = 38"

text \<open>
  Modelled from the spec: the error code of "out-of-range values", \<^verbatim>\<open>ERANGE\<close> of
  \<^verbatim>\<open><errno.h>\<close>, with its number on Linux.
\<close>

definition ERANGE :: c_int where
  "ERANGE = 34"

text \<open>
  Modelled from the spec: the error code the host library reports for a base outside
  "0 or 2-36", \<^verbatim>\<open>EINVAL\<close> of \<^verbatim>\<open><errno.h>\<close>, with its number on Linux.
\<close>

definition EINVAL :: c_int where
  "EINVAL = 22"

text \<open>
  Modelled from the spec: \<^verbatim>\<open>isspace\<close> in the C locale, used by the conversions to skip
  leading white space: space, and the control characters 9 to 13.
\<close>

definition is_space :: "char \<Rightarrow> bool" where
  "is_space c = (let n = (of_char c :: nat) in n = 32 \<or> (9 \<le> n \<and> n \<le> 13))"

text \<open>
  Modelled from the spec: the value of a character as a digit, \<^verbatim>\<open>0\<close> to \<^verbatim>\<open>9\<close> for the
  decimal digits and 10 to 35 for the letters of either case.
\<close>

definition digit_val :: "char \<Rightarrow> nat option" where
  "digit_val c =
     (let n = (of_char c :: nat) in
      if 48 \<le> n \<and> n \<le> 57 then Some (n - 48)
      else if 97 \<le> n \<and> n \<le> 122 then Some (n - 87)
      else if 65 \<le> n \<and> n \<le> 90 then Some (n - 55)
      else None)"

text \<open>Modelled from the spec: a character is a digit of base \<open>b\<close> when its value is below \<open>b\<close>.\<close>

definition is_digit :: "nat \<Rightarrow> char \<Rightarrow> bool" where
  "is_digit b c = (case digit_val c of Some d \<Rightarrow> d < b | None \<Rightarrow> False)"

text \<open>Modelled from the spec: the length of the optional sign in front of the digits.\<close>

definition sign_len :: "string \<Rightarrow> nat" where
  "sign_len r = (case r of [] \<Rightarrow> 0 | c # _ \<Rightarrow> if c = CHR ''-'' \<or> c = CHR ''+'' then 1 else 0)"

text \<open>Modelled from the spec: whether that sign is a minus.\<close>

definition negative :: "string \<Rightarrow> bool" where
  "negative r = (case r of [] \<Rightarrow> False | c # _ \<Rightarrow> c = CHR ''-'')"

text \<open>
  Modelled from the spec: the hexadecimal prefix, \<^verbatim>\<open>0x\<close> or \<^verbatim>\<open>0X\<close> with a hexadecimal
  digit after it (without one, the \<^verbatim>\<open>0\<close> alone is the number).
\<close>

definition has_hex_prefix :: "string \<Rightarrow> bool" where
  "has_hex_prefix r =
     (case r of
        c0 # cx # ch # _ \<Rightarrow>
          c0 = CHR ''0'' \<and> (cx = CHR ''x'' \<or> cx = CHR ''X'') \<and> is_digit 16 ch
      | _ \<Rightarrow> False)"

text \<open>
  Modelled from the spec: "base-0 auto-detection of hex/octal prefixes". The prefix
  counts when the base is 0 or 16; otherwise base 0 reads a leading \<^verbatim>\<open>0\<close> as octal and
  anything else as decimal. \<open>radix_of base r\<close> is the base the digits are read in and
  the length of the prefix.
\<close>

definition radix_of :: "nat \<Rightarrow> string \<Rightarrow> nat \<times> nat" where
  "radix_of base r =
     (if (base = 0 \<or> base = 16) \<and> has_hex_prefix r then (16, 2)
      else if base = 0 then (if take 1 r = ''0'' then (8, 0) else (10, 0))
      else (base, 0))"

text \<open>Modelled from the spec: the number a run of digits denotes in base \<open>b\<close>.\<close>

definition digits_value :: "nat \<Rightarrow> string \<Rightarrow> int" where
  "digits_value b ds =
     foldl (\<lambda>acc c. case digit_val c of Some d \<Rightarrow> acc * int b + int d | None \<Rightarrow> acc) 0 ds"

text \<open>
  Modelled from the spec: the scan of the text. It skips white space, an optional sign
  and an optional prefix, and takes the longest run of digits of the base. The result is
  the sign, the magnitude and the number of characters used; with no digit at all
  nothing is used ("malformed input yields zero with the end-pointer equal to the
  start").
\<close>

definition scan :: "nat \<Rightarrow> string \<Rightarrow> bool \<times> int \<times> nat" where
  "scan base str =
     (let ws = length (takeWhile is_space str);
          r1 = drop ws str;
          sg = sign_len r1;
          r2 = drop sg r1;
          (b, pre) = radix_of base r2;
          ds = takeWhile (is_digit b) (drop pre r2)
      in if ds = [] then (False, 0, 0)
         else (negative r1, digits_value b ds, ws + sg + pre + length ds))"

text \<open>
  Modelled from the spec: the result in a signed return type. A value outside the
  type's range is replaced by the nearest bound and reported ("out-of-range values").
\<close>

definition clamp_signed :: "bool \<Rightarrow> int \<Rightarrow> c_long \<times> bool" where
  "clamp_signed neg mag =
     (if neg then (if 2 ^ 63 < mag then (- (2 ^ 63), True) else (- word_of_int mag, False))
      else (if 2 ^ 63 \<le> mag then (2 ^ 63 - 1, True) else (word_of_int mag, False)))"

text \<open>
  Modelled from the spec: the result in an unsigned return type. A magnitude outside
  the type's range is replaced by the largest value and reported; a minus sign negates
  within the type.
\<close>

definition clamp_unsigned :: "bool \<Rightarrow> int \<Rightarrow> c_long \<times> bool" where
  "clamp_unsigned neg mag =
     (if 2 ^ 64 \<le> mag then (- 1, True)
      else if neg then (- word_of_int mag, False)
      else (word_of_int mag, False))"

text \<open>
  Modelled from the spec: "may advance the end-pointer to the first unparsed character".
  The end pointer is an optional output: it is stored only through a slot that is not
  null.
\<close>

definition store_end :: "ptr \<Rightarrow> ptr \<Rightarrow> cstate \<Rightarrow> cstate" where
  "store_end endptr p s =
     (if endptr = NULL then s else s\<lparr>ptr_cells := (ptr_cells s)(endptr := p)\<rparr>)"

text \<open>
  Modelled from the spec: the pre-C23 conversions of the host library ("numeric base
  (0 or 2-36)", "may advance the end-pointer to the first unparsed character", errors
  "of the underlying standard conversion routines (e.g., out-of-range values)"). A base
  outside the supported ones gives 0 and \<^verbatim>\<open>EINVAL\<close> and leaves the end-pointer slot
  alone, as the host library does. A text pointer that points to no character array
  does not return.
\<close>

definition strto :: "bool \<Rightarrow> conversion" where
  "strto is_signed nptr endptr base s =
     (let b = sint base in
      if b < 0 \<or> b = 1 \<or> 36 < b then Some (0, s\<lparr>errno := EINVAL\<rparr>)
      else
        (case strings s nptr of
           None \<Rightarrow> None
         | Some str \<Rightarrow>
             (let (neg, mag, n) = scan (nat b) str;
                  (v, over) = (if is_signed then clamp_signed neg mag else clamp_unsigned neg mag);
                  s1 = (if over then s\<lparr>errno := ERANGE\<rparr> else s)
              in Some (v, store_end endptr (nptr + word_of_nat n) s1))))"

text \<open>
  Modelled from the spec: the host library on 64-bit Linux, where \<^verbatim>\<open>long\<close> and
  \<^verbatim>\<open>long long\<close> have the same range.
\<close>

definition host :: libc where
  "host = \<lparr>ENOSYS = ENOSYS_linux,
           strtol = strto True, strtoul = strto False,
           strtoll = strto True, strtoull = strto False\<rparr>"

section \<open>What a call leaves behind\<close>

text \<open>The value a call returns and the \<^verbatim>\<open>errno\<close> it leaves, when it returns.\<close>

definition returned :: "('a \<times> cstate) option \<Rightarrow> 'a option" where
  "returned r = map_option fst r"

definition final_errno :: "('a \<times> cstate) option \<Rightarrow> c_int option" where
  "final_errno r = map_option (\<lambda>(v, s'). errno s') r"

text \<open>The address of the terminating NUL of the text \<open>str\<close> stored at \<open>nptr\<close>.\<close>

definition nul_of :: "ptr \<Rightarrow> string \<Rightarrow> ptr" where
  "nul_of nptr str = nptr + word_of_nat (length str)"

text \<open>The bases the specification gives the conversions: 0 or 2 to 36.\<close>

definition supported_base :: "c_int \<Rightarrow> bool" where
  "supported_base base = (sint base = 0 \<or> (2 \<le> sint base \<and> sint base \<le> 36))"

text \<open>
  Malformed input, stated on the text alone: after the leading white space and an
  optional sign there is no digit of the base (of base 10 when the base is 0).
\<close>

definition no_number :: "nat \<Rightarrow> string \<Rightarrow> bool" where
  "no_number base str =
     (let r1 = dropWhile is_space str
      in case drop (sign_len r1) r1 of
           [] \<Rightarrow> True
         | c # _ \<Rightarrow> \<not> is_digit (if base = 0 then 10 else base) c)"

text \<open>
  A state for concrete runs: the text \<open>str\<close> stored at address 4096, every cell zero
  and \<^verbatim>\<open>errno\<close> zero.
\<close>

definition text_at :: "string \<Rightarrow> cstate" where
  "text_at str =
     \<lparr>errno = 0, strings = (\<lambda>p. if p = 4096 then Some str else None),
      ptr_cells = (\<lambda>p. 0), int_cells = (\<lambda>p. 0)\<rparr>"

section \<open>Facts about the model of the host's conversions\<close>

lemma drop_takeWhile_length: "drop (length (takeWhile P xs)) xs = dropWhile P xs"
  by (induction xs) auto

lemma is_digit_zero: "0 < b \<Longrightarrow> is_digit b (CHR ''0'')"
  by (simp add: is_digit_def digit_val_def)

lemma has_hex_prefix_zero: "has_hex_prefix r \<Longrightarrow> \<exists>t. r = CHR ''0'' # t"
  by (auto simp: has_hex_prefix_def split: list.splits)

lemma take1_zero: "take 1 r = ''0'' \<Longrightarrow> \<exists>t. r = CHR ''0'' # t"
  by (cases r) auto

text \<open>With no digit where the number should start, the scan uses nothing.\<close>

lemma scan_no_number:
  assumes "no_number base str"
  shows "scan base str = (False, 0, 0)"
proof -
  define r1 where "r1 = dropWhile is_space str"
  define r2 where "r2 = drop (sign_len r1) r1"
  define b0 where "b0 = (if base = 0 then 10 else base)"
  have nd: "r2 = [] \<or> \<not> is_digit b0 (hd r2)"
    using assms by (auto simp: no_number_def r1_def r2_def b0_def Let_def split: list.splits)
  have b0: "0 < b0" by (simp add: b0_def)
  have nz: "\<not> (\<exists>t. r2 = CHR ''0'' # t)"
    using nd is_digit_zero [OF b0] by auto
  have nhex: "\<not> has_hex_prefix r2"
    using nz has_hex_prefix_zero by blast
  have nt: "take 1 r2 \<noteq> ''0''"
    using nz take1_zero by blast
  have rad: "radix_of base r2 = (b0, 0)"
    using nhex nt by (simp add: radix_of_def b0_def)
  have nil: "takeWhile (is_digit b0) r2 = []"
    using nd by (cases r2) auto
  show ?thesis
    unfolding scan_def Let_def drop_takeWhile_length r1_def [symmetric] r2_def [symmetric] rad
    by (simp add: nil)
qed

lemma strto_no_number:
  assumes "supported_base base" and "strings s nptr = Some str"
    and "no_number (nat (sint base)) str"
  shows "strto sg nptr endptr base s = Some (0, store_end endptr nptr s)"
proof -
  have sc: "scan (nat (sint base)) str = (False, 0, 0)"
    using assms(3) by (rule scan_no_number)
  have nb: "\<not> (sint base < 0 \<or> sint base = 1 \<or> 36 < sint base)"
    using assms(1) by (auto simp: supported_base_def)
  show ?thesis
    using nb sc assms(2)
    by (simp add: strto_def Let_def clamp_signed_def clamp_unsigned_def)
qed

text \<open>The value does not depend on the slot, and a null slot leaves every cell alone.\<close>

lemma strto_returned_any_slot:
  "returned (strto sg nptr NULL base s) = returned (strto sg nptr endptr base s)"
  by (simp add: strto_def returned_def Let_def split: option.splits prod.splits)

lemma strto_null_cells:
  "strto sg nptr NULL base s = Some (v, s') \<Longrightarrow> ptr_cells s' = ptr_cells s"
  by (auto simp: strto_def store_end_def Let_def split: option.splits prod.splits if_splits)

lemma scan_123: "scan 10 ''123'' = (False, 123, 3)"
  by (simp add: scan_def is_space_def sign_len_def radix_of_def is_digit_def digit_val_def
      digits_value_def has_hex_prefix_def negative_def)

lemma scan_0x1F: "scan 0 ''0x1F'' = (False, 31, 4)"
  by (simp add: scan_def is_space_def sign_len_def radix_of_def is_digit_def digit_val_def
      digits_value_def has_hex_prefix_def negative_def)

lemma strto_123:
  "strings s nptr = Some ''123'' \<Longrightarrow>
   strto sg nptr endptr 10 s = Some (123, store_end endptr (nul_of nptr ''123'') s)"
  by (simp add: strto_def scan_123 clamp_signed_def clamp_unsigned_def nul_of_def)

lemma strto_0x1F:
  "strings s nptr = Some ''0x1F'' \<Longrightarrow>
   strto sg nptr endptr 0 s = Some (31, store_end endptr (nul_of nptr ''0x1F'') s)"
  by (simp add: strto_def scan_0x1F clamp_signed_def clamp_unsigned_def nul_of_def)


text \<open>
  An out-of-range value through the shim: the bound of the type is returned, the end
  pointer is past all the digits and \<^verbatim>\<open>errno\<close> is \<^verbatim>\<open>ERANGE\<close>.
\<close>

lemma scan_twenty_nines:
  "scan 10 ''99999999999999999999'' = (False, 99999999999999999999, 20)"
  by (simp add: scan_def is_space_def sign_len_def radix_of_def is_digit_def digit_val_def
      digits_value_def has_hex_prefix_def negative_def)

lemma shim_out_of_range:
  "isoc23_strtol host 4096 64 10 (text_at ''99999999999999999999'') =
     Some (9223372036854775807,
       (text_at ''99999999999999999999'')
         \<lparr>errno := ERANGE, ptr_cells := (\<lambda>p. if p = 64 then 4116 else 0)\<rparr>)"
  by (simp add: isoc23_strtol_def host_def strto_def scan_twenty_nines clamp_signed_def
      store_end_def NULL_def text_at_def fun_eq_iff)

section \<open>The conversions are forwarded\<close>

text \<open>
  Claim C1. For every text pointer, end-pointer slot, base and state, and whatever the
  host's conversions are, each of \<^verbatim>\<open>__isoc23_strtol\<close>, \<^verbatim>\<open>__isoc23_strtoul\<close>,
  \<^verbatim>\<open>__isoc23_strtoll\<close> and \<^verbatim>\<open>__isoc23_strtoull\<close> gives the result of \<^verbatim>\<open>strtol\<close>,
  \<^verbatim>\<open>strtoul\<close>, \<^verbatim>\<open>strtoll\<close> and \<^verbatim>\<open>strtoull\<close> on the same arguments: the same returned
  value and the same final state, so the same pointer in the end-pointer slot.
\<close>

theorem shim_forwards_conversions:
  "isoc23_strtol L nptr endptr base s = strtol L nptr endptr base s \<and>
   isoc23_strtoul L nptr endptr base s = strtoul L nptr endptr base s \<and>
   isoc23_strtoll L nptr endptr base s = strtoll L nptr endptr base s \<and>
   isoc23_strtoull L nptr endptr base s = strtoull L nptr endptr base s"
  by (simp add: isoc23_strtol_def isoc23_strtoul_def isoc23_strtoll_def isoc23_strtoull_def)

section \<open>The stubs\<close>

text \<open>
  Claim C2. For all arguments, null pointers included, and every state,
  \<^verbatim>\<open>pidfd_spawnp\<close> returns, its value is -1 and \<^verbatim>\<open>errno\<close> is \<^verbatim>\<open>ENOSYS\<close> afterwards.
\<close>

theorem pidfd_spawnp_fails:
  "\<exists>r s'. pidfd_spawnp L pidfd file file_actions attrp argv envp s = Some (r, s') \<and>
     sint r = - 1 \<and> errno s' = ENOSYS L"
  by (simp add: pidfd_spawnp_def)

text \<open>The scenario of the specification: every argument null, on the Linux host.\<close>

lemma pidfd_spawnp_all_null:
  "pidfd_spawnp host NULL NULL NULL NULL NULL NULL (text_at []) =
     Some (- 1, (text_at [])\<lparr>errno := 38\<rparr>)"
  by (simp add: pidfd_spawnp_def host_def ENOSYS_linux_def)

text \<open>
  Claim C3. For every process descriptor, 42 among them, and every state,
  \<^verbatim>\<open>pidfd_getpid\<close> returns, its value is -1 and \<^verbatim>\<open>errno\<close> is \<^verbatim>\<open>ENOSYS\<close> afterwards.
\<close>

theorem pidfd_getpid_fails:
  "\<exists>r s'. pidfd_getpid L pidfd s = Some (r, s') \<and> sint r = - 1 \<and> errno s' = ENOSYS L"
  by (simp add: pidfd_getpid_def)

lemma pidfd_getpid_42:
  "pidfd_getpid host 42 (text_at []) = Some (- 1, (text_at [])\<lparr>errno := 38\<rparr>)"
  by (simp add: pidfd_getpid_def host_def ENOSYS_linux_def)

section \<open>The scenarios of the specification\<close>

text \<open>
  Claim C4. On the Linux host as modelled, each shimmed conversion applied to the text
  \<^verbatim>\<open>"123"\<close> with base 10 returns 123, and the end pointer, stored when the slot is not
  null, is the address of the terminating NUL; nothing else changes.
\<close>

theorem shim_123_base_10:
  assumes "strings s nptr = Some ''123''"
  shows
    "isoc23_strtol host nptr endptr 10 s = Some (123, store_end endptr (nul_of nptr ''123'') s) \<and>
     isoc23_strtoul host nptr endptr 10 s = Some (123, store_end endptr (nul_of nptr ''123'') s) \<and>
     isoc23_strtoll host nptr endptr 10 s = Some (123, store_end endptr (nul_of nptr ''123'') s) \<and>
     isoc23_strtoull host nptr endptr 10 s = Some (123, store_end endptr (nul_of nptr ''123'') s)"
  using assms
  by (simp add: isoc23_strtol_def isoc23_strtoul_def isoc23_strtoll_def isoc23_strtoull_def
      host_def strto_123)

theorem shim_123_base_10_witness:
  "strings (text_at ''123'') 4096 = Some ''123'' \<and>
   isoc23_strtol host 4096 64 10 (text_at ''123'') =
     Some (123, (text_at ''123'')\<lparr>ptr_cells := (\<lambda>p. if p = 64 then 4099 else 0)\<rparr>) \<and>
   isoc23_strtol host 4096 NULL 10 (text_at ''123'') = Some (123, text_at ''123'')"
proof -
  have h: "strings (text_at ''123'') 4096 = Some ''123''"
    by (simp add: text_at_def)
  have a: "store_end 64 (nul_of 4096 ''123'') (text_at ''123'') =
      (text_at ''123'')\<lparr>ptr_cells := (\<lambda>p. if p = 64 then 4099 else 0)\<rparr>"
    by (simp add: store_end_def nul_of_def NULL_def text_at_def fun_eq_iff)
  have b: "store_end NULL (nul_of 4096 ''123'') (text_at ''123'') = text_at ''123''"
    by (simp add: store_end_def)
  show ?thesis
    using h shim_123_base_10 [OF h, of 64] shim_123_base_10 [OF h, of NULL]
    by (simp add: a b)
qed

text \<open>
  Claim C5. On the Linux host as modelled, each shimmed conversion applied to the text
  \<^verbatim>\<open>"0x1F"\<close> with base 0 takes the prefix as hexadecimal and returns 31, and the end
  pointer, stored when the slot is not null, is the address of the terminating NUL.
\<close>

theorem shim_0x1F_base_0:
  assumes "strings s nptr = Some ''0x1F''"
  shows
    "isoc23_strtol host nptr endptr 0 s = Some (31, store_end endptr (nul_of nptr ''0x1F'') s) \<and>
     isoc23_strtoul host nptr endptr 0 s = Some (31, store_end endptr (nul_of nptr ''0x1F'') s) \<and>
     isoc23_strtoll host nptr endptr 0 s = Some (31, store_end endptr (nul_of nptr ''0x1F'') s) \<and>
     isoc23_strtoull host nptr endptr 0 s = Some (31, store_end endptr (nul_of nptr ''0x1F'') s)"
  using assms
  by (simp add: isoc23_strtol_def isoc23_strtoul_def isoc23_strtoll_def isoc23_strtoull_def
      host_def strto_0x1F)

theorem shim_0x1F_base_0_witness:
  "strings (text_at ''0x1F'') 4096 = Some ''0x1F'' \<and>
   isoc23_strtol host 4096 64 0 (text_at ''0x1F'') =
     Some (31, (text_at ''0x1F'')\<lparr>ptr_cells := (\<lambda>p. if p = 64 then 4100 else 0)\<rparr>)"
proof -
  have h: "strings (text_at ''0x1F'') 4096 = Some ''0x1F''"
    by (simp add: text_at_def)
  have a: "store_end 64 (nul_of 4096 ''0x1F'') (text_at ''0x1F'') =
      (text_at ''0x1F'')\<lparr>ptr_cells := (\<lambda>p. if p = 64 then 4100 else 0)\<rparr>"
    by (simp add: store_end_def nul_of_def NULL_def text_at_def fun_eq_iff)
  show ?thesis
    using h shim_0x1F_base_0 [OF h, of 64] by (simp add: a)
qed

text \<open>
  Claim C6. On the Linux host as modelled, for a supported base and a text with no
  number in it (the empty text among them), each shimmed conversion returns, its value
  is 0, the end pointer, stored when the slot is not null, is the start pointer, and
  \<^verbatim>\<open>errno\<close> is left as it was.
\<close>

theorem shim_malformed_input:
  assumes "supported_base base" and "strings s nptr = Some str"
    and "no_number (nat (sint base)) str"
  shows
    "isoc23_strtol host nptr endptr base s = Some (0, store_end endptr nptr s) \<and>
     isoc23_strtoul host nptr endptr base s = Some (0, store_end endptr nptr s) \<and>
     isoc23_strtoll host nptr endptr base s = Some (0, store_end endptr nptr s) \<and>
     isoc23_strtoull host nptr endptr base s = Some (0, store_end endptr nptr s)"
  using assms
  by (simp add: isoc23_strtol_def isoc23_strtoul_def isoc23_strtoll_def isoc23_strtoull_def
      host_def strto_no_number)

theorem shim_malformed_input_witness:
  "supported_base 10 \<and> strings (text_at []) 4096 = Some [] \<and> no_number (nat (sint (10 :: c_int))) [] \<and>
   isoc23_strtol host 4096 64 10 (text_at []) =
     Some (0, (text_at [])\<lparr>ptr_cells := (\<lambda>p. if p = 64 then 4096 else 0)\<rparr>) \<and>
   errno (text_at []\<lparr>ptr_cells := (\<lambda>p. if p = 64 then 4096 else 0)\<rparr>) = errno (text_at [])"
proof -
  have b: "supported_base 10"
    by (simp add: supported_base_def)
  have h: "strings (text_at []) 4096 = Some []"
    by (simp add: text_at_def)
  have n: "no_number (nat (sint (10 :: c_int))) []"
    by (simp add: no_number_def sign_len_def)
  have a: "store_end 64 4096 (text_at []) =
      (text_at [])\<lparr>ptr_cells := (\<lambda>p. if p = 64 then 4096 else 0)\<rparr>"
    by (simp add: store_end_def NULL_def text_at_def fun_eq_iff)
  show ?thesis
    using b h n shim_malformed_input [OF b h n, of 64] by (simp add: a)
qed

section \<open>Frame, errors and termination\<close>

text \<open>
  Claim C7. A call of either stub changes \<^verbatim>\<open>errno\<close> and nothing else: the final state
  is the initial one but for \<^verbatim>\<open>errno\<close>. In particular the cell \<^verbatim>\<open>pidfd\<close> points to
  holds what it held, and the texts and the other cells are the same.
\<close>

theorem stubs_change_errno_only:
  assumes "pidfd_spawnp L pidfd file file_actions attrp argv envp s = Some (r, s') \<or>
           pidfd_getpid L fd s = Some (r, s')"
  shows "s' = s\<lparr>errno := errno s'\<rparr> \<and> int_cells s' pidfd = int_cells s pidfd \<and>
         strings s' = strings s \<and> ptr_cells s' = ptr_cells s \<and> int_cells s' = int_cells s"
  using assms by (auto simp: pidfd_spawnp_def pidfd_getpid_def)

theorem stubs_change_errno_only_witness:
  "pidfd_spawnp host 64 NULL NULL NULL NULL NULL ((text_at [])\<lparr>int_cells := (\<lambda>p. 7)\<rparr>) =
     Some (- 1, (text_at [])\<lparr>errno := 38, int_cells := (\<lambda>p. 7)\<rparr>) \<and>
   int_cells ((text_at [])\<lparr>errno := 38, int_cells := (\<lambda>p. 7)\<rparr>) 64 = 7"
proof -
  have h: "pidfd_spawnp host 64 NULL NULL NULL NULL NULL ((text_at [])\<lparr>int_cells := (\<lambda>p. 7)\<rparr>) =
      Some (- 1, (text_at [])\<lparr>errno := 38, int_cells := (\<lambda>p. 7)\<rparr>)"
    by (simp add: pidfd_spawnp_def host_def ENOSYS_linux_def)
  from stubs_change_errno_only [OF disjI1 [OF h]]
  show ?thesis using h by simp
qed

text \<open>
  Claim C8. The wrappers add no error of their own: whatever the host's conversions
  are, a shimmed call leaves \<^verbatim>\<open>errno\<close> exactly as the underlying call does on the same
  arguments.
\<close>

theorem shim_errno_is_underlying:
  "final_errno (isoc23_strtol L nptr endptr base s) = final_errno (strtol L nptr endptr base s) \<and>
   final_errno (isoc23_strtoul L nptr endptr base s) = final_errno (strtoul L nptr endptr base s) \<and>
   final_errno (isoc23_strtoll L nptr endptr base s) = final_errno (strtoll L nptr endptr base s) \<and>
   final_errno (isoc23_strtoull L nptr endptr base s) = final_errno (strtoull L nptr endptr base s)"
  by (simp add: isoc23_strtol_def isoc23_strtoul_def isoc23_strtoll_def isoc23_strtoull_def)




text \<open>
  Claim C10. A null end-pointer slot is forwarded as it is, whatever the host's
  conversions are; and on the Linux host as modelled, a shimmed call with a null slot
  returns the value the same call returns with any other slot and leaves every pointer
  cell as it was.
\<close>

theorem shim_null_end_pointer:
  "isoc23_strtol L nptr NULL base s = strtol L nptr NULL base s \<and>
   isoc23_strtoul L nptr NULL base s = strtoul L nptr NULL base s \<and>
   isoc23_strtoll L nptr NULL base s = strtoll L nptr NULL base s \<and>
   isoc23_strtoull L nptr NULL base s = strtoull L nptr NULL base s \<and>
   (\<forall>conv \<in> {isoc23_strtol host, isoc23_strtoul host, isoc23_strtoll host, isoc23_strtoull host}.
      returned (conv nptr NULL base s) = returned (conv nptr endptr base s) \<and>
      (\<forall>v s'. conv nptr NULL base s = Some (v, s') \<longrightarrow> ptr_cells s' = ptr_cells s))"
proof -
  have fwd: "isoc23_strtol host = strto True" "isoc23_strtoul host = strto False"
    "isoc23_strtoll host = strto True" "isoc23_strtoull host = strto False"
    by (simp_all add: fun_eq_iff isoc23_strtol_def isoc23_strtoul_def isoc23_strtoll_def
        isoc23_strtoull_def host_def)
  have "returned (strto sg nptr NULL base s) = returned (strto sg nptr endptr base s) \<and>
      (\<forall>v s'. strto sg nptr NULL base s = Some (v, s') \<longrightarrow> ptr_cells s' = ptr_cells s)" for sg
    using strto_returned_any_slot strto_null_cells by blast
  then show ?thesis
    by (simp add: fwd isoc23_strtol_def isoc23_strtoul_def isoc23_strtoll_def isoc23_strtoull_def)
qed

theorem shim_null_end_pointer_witness:
  "isoc23_strtol host 4096 NULL 10 (text_at ''123'') = Some (123, text_at ''123'') \<and>
   returned (isoc23_strtol host 4096 64 10 (text_at ''123'')) = Some 123"
proof -
  have run: "isoc23_strtol host 4096 NULL 10 (text_at ''123'') = Some (123, text_at ''123'')"
    by (simp add: isoc23_strtol_def host_def strto_def scan_123 clamp_signed_def store_end_def
        text_at_def)
  have "returned (isoc23_strtol host 4096 NULL 10 (text_at ''123'')) =
      returned (isoc23_strtol host 4096 64 10 (text_at ''123''))"
    using shim_null_end_pointer [of host 4096 10 "text_at ''123''" 64] by blast
  then show ?thesis
    using run by (simp add: returned_def)
qed

end
